theory Spec2Isabelle
  imports Complex_Main
begin

section \<open>Numbers\<close>

text \<open>
  The program computes with JavaScript numbers. They are modelled as \<^typ>\<open>real\<close> in exact
  arithmetic: rounding, infinities and NaN produced by arithmetic are outside the model.
  Only the definitions whose names end in \<open>64\<close> round every operation to binary64.
  A form field is read through \<open>Number(v) || 0\<close>; the field is modelled as a
  \<^typ>\<open>real option\<close>, \<open>Some x\<close> when \<open>Number(v)\<close> is the number \<open>x\<close> and \<open>None\<close> when it
  is NaN (a non-numeric entry).
\<close>

type_synonym field = "real option"

definition numberOrZero :: "field \<Rightarrow> real" where
  \<comment> \<open>\<open>Number(b) || 0\<close>: NaN and 0 are falsy, so both give 0.\<close>
  "numberOrZero b = (case b of None \<Rightarrow> 0 | Some x \<Rightarrow> if x = 0 then 0 else x)"

section \<open>Progressive tax evaluator (lib/malaysiaTax.ts)\<close>

record Bracket =
  lowerBound :: real
  upTo :: "real option"
  rate :: real
  baseTax :: real

definition BRACKETS :: "Bracket list" where
  "BRACKETS = [
     \<lparr>lowerBound = 0, upTo = Some 5000, rate = 0.0, baseTax = 0\<rparr>,
     \<lparr>lowerBound = 5000, upTo = Some 20000, rate = 0.01, baseTax = 0\<rparr>,
     \<lparr>lowerBound = 20000, upTo = Some 35000, rate = 0.03, baseTax = 150\<rparr>,
     \<lparr>lowerBound = 35000, upTo = Some 50000, rate = 0.06, baseTax = 600\<rparr>,
     \<lparr>lowerBound = 50000, upTo = Some 70000, rate = 0.11, baseTax = 1500\<rparr>,
     \<lparr>lowerBound = 70000, upTo = Some 100000, rate = 0.19, baseTax = 3700\<rparr>,
     \<lparr>lowerBound = 100000, upTo = Some 400000, rate = 0.25, baseTax = 9400\<rparr>,
     \<lparr>lowerBound = 400000, upTo = Some 600000, rate = 0.26, baseTax = 84400\<rparr>,
     \<lparr>lowerBound = 600000, upTo = Some 2000000, rate = 0.28, baseTax = 136400\<rparr>,
     \<lparr>lowerBound = 2000000, upTo = None, rate = 0.3, baseTax = 528400\<rparr>]"

definition inBracket :: "real \<Rightarrow> Bracket \<Rightarrow> bool" where
  \<comment> \<open>The predicate handed to \<open>BRACKETS.find\<close>.\<close>
  "inBracket ci b =
     (case upTo b of
        None \<Rightarrow> ci > lowerBound b
      | Some u \<Rightarrow> ci > lowerBound b \<and> ci \<le> u)"

record TaxOpts =
  applySelfRebate :: "bool option"
  spouseRebate :: "bool option"

definition computeAnnualTax :: "real \<Rightarrow> TaxOpts option \<Rightarrow> real" where
  "computeAnnualTax chargeableIncome opts =
     (let ci = max 0 chargeableIncome in
      if ci \<le> 5000 then 0
      else
        case find (inBracket ci) BRACKETS of
          None \<Rightarrow> 0
        | Some bracket \<Rightarrow>
            let taxableInBracket =
                  (case upTo bracket of None \<Rightarrow> ci | Some u \<Rightarrow> min ci u) - lowerBound bracket;
                tax = baseTax bracket + taxableInBracket * rate bracket;
                applySelf = (Option.bind opts applySelfRebate \<noteq> Some False);
                spouse = (Option.bind opts spouseRebate = Some True)
            in if ci \<le> 35000 \<and> (applySelf \<or> spouse)
               then let rebate = (if applySelf then 400 else 0) + (if spouse then 400 else 0)
                    in max 0 (tax - rebate)
               else tax)"

definition estimateMonthlyTaxFromAnnualChargeable :: "real \<Rightarrow> TaxOpts option \<Rightarrow> real" where
  "estimateMonthlyTaxFromAnnualChargeable chargeableIncome opts =
     computeAnnualTax chargeableIncome opts / 12"

record ReliefOpts =
  epfMonthly :: "real option"
  socsoMonthly :: "real option"
  eisMonthly :: "real option"

definition orZero :: "real option \<Rightarrow> real" where
  \<comment> \<open>\<open>v ?? 0\<close>\<close>
  "orZero v = (case v of None \<Rightarrow> 0 | Some x \<Rightarrow> x)"

definition buildAnnualChargeableIncome :: "real \<Rightarrow> real \<Rightarrow> ReliefOpts option \<Rightarrow> real" where
  "buildAnnualChargeableIncome monthlyGross annualReliefs opts =
     (let annualGross = max 0 monthlyGross * 12;
          totalReliefs = max 0 annualReliefs;
          totalReliefs =
            (case Option.bind opts epfMonthly of
               None \<Rightarrow> totalReliefs
             | Some e \<Rightarrow> let epfAnnual = max 0 e * 12 in totalReliefs + min epfAnnual 7000);
          totalReliefs =
            (if Option.bind opts socsoMonthly \<noteq> None \<or> Option.bind opts eisMonthly \<noteq> None
             then let socsoEisAnnual =
                        (max 0 (orZero (Option.bind opts socsoMonthly))
                         + max 0 (orZero (Option.bind opts eisMonthly))) * 12
                  in totalReliefs + min socsoEisAnnual 350
             else totalReliefs)
      in max 0 (annualGross - totalReliefs))"

section \<open>Deduction and allocation (components/SalaryCalculator.vue)\<close>

record Formula =
  name :: string
  needs :: real
  wants :: real
  savings :: real

definition DEFAULT_FORMULAS :: "Formula list" where
  "DEFAULT_FORMULAS = [
     \<lparr>name = ''50 / 30 / 20'', needs = 50, wants = 30, savings = 20\<rparr>,
     \<lparr>name = ''70 / 20 / 10'', needs = 70, wants = 20, savings = 10\<rparr>,
     \<lparr>name = ''60 / 20 / 20'', needs = 60, wants = 20, savings = 20\<rparr>]"

text \<open>The reactive form. \<open>salary\<close> and the necessity fields are read through \<open>Number\<close>.\<close>

record Form =
  salary :: field
  epfRate :: real
  socsoRate :: real
  socsoCeiling :: real
  eisRate :: real
  eisCeiling :: real
  house :: field
  car :: field
  food :: field
  utilities :: field
  otherNecessities :: field

definition getDefaultForm :: Form where
  "getDefaultForm =
     \<lparr>salary = Some 0, epfRate = 11, socsoRate = 0.5, socsoCeiling = 6000, eisRate = 0.2,
      eisCeiling = 6000, house = Some 0, car = Some 0, food = Some 0, utilities = Some 0,
      otherNecessities = Some 0\<rparr>"

definition gross :: "Form \<Rightarrow> real" where
  "gross form = max 0 (numberOrZero (salary form))"

definition epf :: "Form \<Rightarrow> real" where
  "epf form = gross form * (epfRate form / 100)"

definition socso :: "Form \<Rightarrow> real" where
  "socso form = min (gross form) (socsoCeiling form) * (socsoRate form / 100)"

definition eis :: "Form \<Rightarrow> real" where
  "eis form = min (gross form) (eisCeiling form) * (eisRate form / 100)"

definition totalDeductions :: "Form \<Rightarrow> real" where
  "totalDeductions form = epf form + socso form + eis form"

definition net :: "Form \<Rightarrow> real" where
  "net form = max 0 (gross form - totalDeductions form)"

definition necessityFields :: "Form \<Rightarrow> field list" where
  \<comment> \<open>\<open>['house', 'car', 'food', 'utilities', 'otherNecessities'].map((k) => form[k])\<close>\<close>
  "necessityFields form =
     [house form, car form, food form, utilities form, otherNecessities form]"

definition necessities :: "Form \<Rightarrow> real" where
  \<comment> \<open>\<open>.reduce((a, b) => a + (Number(b) || 0), 0)\<close>\<close>
  "necessities form = foldl (\<lambda>a b. a + numberOrZero b) 0 (necessityFields form)"

definition necessityPct :: "Form \<Rightarrow> real" where
  "necessityPct form = (if net form > 0 then (necessities form / net form) * 100 else 0)"

text \<open>
  Decimal rendering of an integer, as a template literal renders an integer-valued
  number of moderate size.
\<close>

fun showNat :: "nat \<Rightarrow> string" where
  "showNat n =
     (if n < 10 then [''0123456789'' ! n]
      else showNat (n div 10) @ [''0123456789'' ! (n mod 10)])"

declare showNat.simps [simp del]

definition showInt :: "int \<Rightarrow> string" where
  "showInt i = (if i < 0 then ''-'' @ showNat (nat (- i)) else showNat (nat i))"

text \<open>
  The body of the \<open>chosenFormula\<close> computation, as a function of \<open>necessityPct.value\<close>.
  \<open>Math.ceil\<close> gives an integer, so the custom percentages are computed in \<^typ>\<open>int\<close>.
\<close>

definition selectFormula :: "real \<Rightarrow> Formula" where
  "selectFormula pct =
     (case find (\<lambda>f. needs f \<ge> pct) (sort_key needs DEFAULT_FORMULAS) of
        Some fit \<Rightarrow> fit
      | None \<Rightarrow>
          let needs0 = min 100 (ceiling pct);
              savings0 = (if needs0 > 70 then 10 else 20);
              wants0 = 100 - needs0 - savings0;
              savings1 = (if wants0 < 0 then max 0 (100 - needs0) else savings0);
              wants1 = (if wants0 < 0 then 100 - needs0 - savings1 else wants0)
          in \<lparr>name = showInt needs0 @ '' / '' @ showInt wants1 @ '' / '' @ showInt savings1
                       @ '' (custom)'',
              needs = of_int needs0, wants = of_int wants1, savings = of_int savings1\<rparr>)"

definition chosenFormula :: "Form \<Rightarrow> Formula" where
  "chosenFormula form = selectFormula (necessityPct form)"

record Allocations =
  needsAmount :: real
  wantsAmount :: real
  savingsAmount :: real

definition allocations :: "Form \<Rightarrow> Allocations" where
  "allocations form =
     (let f = chosenFormula form
      in \<lparr>needsAmount = (needs f / 100) * net form,
          wantsAmount = (wants f / 100) * net form,
          savingsAmount = (savings f / 100) * net form\<rparr>)"

section \<open>The specification's wording\<close>

text \<open>
  The specification floors every necessity field at 0 before summing.
\<close>

definition spec_necessitiesTotal :: "Form \<Rightarrow> real" where
  "spec_necessitiesTotal form = sum_list (map (\<lambda>b. max 0 (numberOrZero b)) (necessityFields form))"

text \<open>
  The custom formula as the specification words it: the triple (needs, wants, savings).
\<close>

definition spec_customFormula :: "real \<Rightarrow> real \<times> real \<times> real" where
  "spec_customFormula pct =
     (let n = min 100 (of_int (ceiling pct));
          s = (if n > 70 then 10 else 20);
          w = 100 - n - s
      in if w < 0 then (n, 100 - n - max 0 (100 - n), max 0 (100 - n)) else (n, w, s))"

text \<open>
  The chargeable income as the specification words it. A monthly contribution is
  annualised as twelve times the contribution, floored at 0.
\<close>

definition spec_annualized :: "real \<Rightarrow> real" where
  "spec_annualized m = max 0 m * 12"

definition spec_chargeableIncome ::
  "real \<Rightarrow> real \<Rightarrow> real option \<Rightarrow> real option \<Rightarrow> real option \<Rightarrow> real" where
  "spec_chargeableIncome monthlyGross annualReliefs e s i =
     (let annualGross = max 0 monthlyGross * 12;
          epfPart = (case e of None \<Rightarrow> 0 | Some m \<Rightarrow> min (spec_annualized m) 7000);
          socsoEisPart =
            (if s = None \<and> i = None then 0
             else min (spec_annualized (orZero s) + spec_annualized (orZero i)) 350);
          totalReliefs = max 0 annualReliefs + epfPart + socsoEisPart
      in max 0 (annualGross - totalReliefs))"

section \<open>Structure of the bracket table\<close>

text \<open>
  \<open>contiguousFrom l bs\<close>: the brackets start at \<open>l\<close>, each one is non-empty and ends where
  the next begins, and only the last one is unbounded.
\<close>

fun contiguousFrom :: "real \<Rightarrow> Bracket list \<Rightarrow> bool" where
  "contiguousFrom l [] = False"
| "contiguousFrom l [b] = (lowerBound b = l \<and> upTo b = None)"
| "contiguousFrom l (b # c # bs) =
     (lowerBound b = l \<and>
      (case upTo b of None \<Rightarrow> False | Some u \<Rightarrow> l < u \<and> contiguousFrom u (c # bs)))"

text \<open>
  \<open>baseTaxChain t bs\<close>: the first bracket has base tax \<open>t\<close>, and the base tax of every later
  bracket is the tax formula of the bracket before it, taken at that bracket's upper bound.
\<close>

definition bracketFormula :: "Bracket \<Rightarrow> real \<Rightarrow> real" where
  \<comment> \<open>The tax formula of \<^const>\<open>computeAnnualTax\<close> for a given bracket, before any rebate.\<close>
  "bracketFormula bracket ci =
     (let taxableInBracket =
            (case upTo bracket of None \<Rightarrow> ci | Some u \<Rightarrow> min ci u) - lowerBound bracket
      in baseTax bracket + taxableInBracket * rate bracket)"

fun baseTaxChain :: "real \<Rightarrow> Bracket list \<Rightarrow> bool" where
  "baseTaxChain t [] = True"
| "baseTaxChain t (b # bs) =
     (baseTax b = t \<and>
      (case upTo b of
         None \<Rightarrow> bs = []
       | Some u \<Rightarrow> baseTaxChain (bracketFormula b u) bs))"

section \<open>Closed forms used in the proofs\<close>

text \<open>The tax before any rebate, bracket by bracket.\<close>

definition bracketTax :: "real \<Rightarrow> real" where
  "bracketTax ci =
     (if ci \<le> 5000 then 0
      else if ci \<le> 20000 then 0 + (ci - 5000) * 0.01
      else if ci \<le> 35000 then 150 + (ci - 20000) * 0.03
      else if ci \<le> 50000 then 600 + (ci - 35000) * 0.06
      else if ci \<le> 70000 then 1500 + (ci - 50000) * 0.11
      else if ci \<le> 100000 then 3700 + (ci - 70000) * 0.19
      else if ci \<le> 400000 then 9400 + (ci - 100000) * 0.25
      else if ci \<le> 600000 then 84400 + (ci - 400000) * 0.26
      else if ci \<le> 2000000 then 136400 + (ci - 600000) * 0.28
      else 528400 + (ci - 2000000) * 0.3)"

definition rebateOf :: "TaxOpts option \<Rightarrow> real" where
  "rebateOf opts =
     (if Option.bind opts applySelfRebate \<noteq> Some False then 400 else 0)
     + (if Option.bind opts spouseRebate = Some True then 400 else 0)"

text \<open>The part of an income \<open>ci\<close> that falls between \<open>l\<close> and \<open>u\<close>, taxed at rate \<open>r\<close>.\<close>

definition marginal :: "real \<Rightarrow> real \<Rightarrow> real \<Rightarrow> real \<Rightarrow> real" where
  "marginal l u r ci = r * max 0 (min ci u - l)"

section \<open>Binary64 arithmetic for the allocation amounts\<close>

text \<open>
  \<open>bitLength n\<close> is the number of binary digits of a positive integer, \<open>expo x\<close> the
  binary exponent of a non-zero \<open>x\<close> (\<open>2 ^ expo x \<le> \<bar>x\<bar> < 2 ^ (expo x + 1)\<close>), \<open>rne\<close> rounds to
  the nearest integer with ties to even, and \<open>fl x\<close> is the binary64 number nearest to \<open>x\<close>:
  53 significant bits, round to nearest, ties to even, gradual underflow below \<open>2 ^ - 1022\<close>.
  Overflow to Infinity (magnitudes from \<open>2 ^ 1024\<close>) is not modelled.
\<close>

function bitLength :: "int \<Rightarrow> nat" where
  "bitLength n = (if n \<le> 0 then 0 else Suc (bitLength (n div 2)))"
  by pat_completeness auto
termination
  by (relation "measure nat") auto

declare bitLength.simps [simp del]

definition pow2 :: "int \<Rightarrow> real" where
  "pow2 e = (if 0 \<le> e then 2 ^ nat e else 1 / 2 ^ nat (- e))"

definition expo :: "real \<Rightarrow> int" where
  "expo x =
     (if 1 \<le> \<bar>x\<bar> then int (bitLength \<lfloor>\<bar>x\<bar>\<rfloor>) - 1
      else - int (bitLength (\<lceil>1 / \<bar>x\<bar>\<rceil> - 1)))"

definition rne :: "real \<Rightarrow> int" where
  "rne x =
     (let f = \<lfloor>x\<rfloor>; d = x - of_int f
      in if d < 1 / 2 then f else if 1 / 2 < d then f + 1 else if even f then f else f + 1)"

definition fl :: "real \<Rightarrow> real" where
  "fl x =
     (if x = 0 then 0
      else let e = max (expo x) (- 1022) - 52 in of_int (rne (x / pow2 e)) * pow2 e)"

text \<open>
  A form whose numeric entries are binary64 numbers: every entry and every literal of
  \<open>getDefaultForm\<close> is the double nearest to its decimal.
\<close>

definition asDoubles :: "Form \<Rightarrow> Form" where
  "asDoubles form =
     \<lparr>salary = map_option fl (salary form), epfRate = fl (epfRate form),
      socsoRate = fl (socsoRate form), socsoCeiling = fl (socsoCeiling form),
      eisRate = fl (eisRate form), eisCeiling = fl (eisCeiling form),
      house = map_option fl (house form), car = map_option fl (car form),
      food = map_option fl (food form), utilities = map_option fl (utilities form),
      otherNecessities = map_option fl (otherNecessities form)\<rparr>"

text \<open>
  The computed values with every arithmetic operation rounded, in the order the source
  evaluates them. \<open>gross\<close> performs no arithmetic, and the formula selection compares,
  takes a ceiling and subtracts integers up to 100, all exact in binary64, so
  \<^const>\<open>gross\<close> and \<^const>\<open>selectFormula\<close> are used as they are.
\<close>

definition epf64 :: "Form \<Rightarrow> real" where
  "epf64 form = fl (gross form * fl (epfRate form / 100))"

definition socso64 :: "Form \<Rightarrow> real" where
  "socso64 form = fl (min (gross form) (socsoCeiling form) * fl (socsoRate form / 100))"

definition eis64 :: "Form \<Rightarrow> real" where
  "eis64 form = fl (min (gross form) (eisCeiling form) * fl (eisRate form / 100))"

definition totalDeductions64 :: "Form \<Rightarrow> real" where
  "totalDeductions64 form = fl (fl (epf64 form + socso64 form) + eis64 form)"

definition net64 :: "Form \<Rightarrow> real" where
  "net64 form = max 0 (fl (gross form - totalDeductions64 form))"

definition necessities64 :: "Form \<Rightarrow> real" where
  "necessities64 form = foldl (\<lambda>a b. fl (a + numberOrZero b)) 0 (necessityFields form)"

definition necessityPct64 :: "Form \<Rightarrow> real" where
  "necessityPct64 form =
     (if net64 form > 0 then fl (fl (necessities64 form / net64 form) * 100) else 0)"

definition chosenFormula64 :: "Form \<Rightarrow> Formula" where
  "chosenFormula64 form = selectFormula (necessityPct64 form)"

definition allocations64 :: "Form \<Rightarrow> Allocations" where
  "allocations64 form =
     (let f = chosenFormula64 form
      in \<lparr>needsAmount = fl (fl (needs f / 100) * net64 form),
          wantsAmount = fl (fl (wants f / 100) * net64 form),
          savingsAmount = fl (fl (savings f / 100) * net64 form)\<rparr>)"

text \<open>The default form with a gross salary of 68105660.25.\<close>

definition largeSalaryForm :: Form where
  "largeSalaryForm = asDoubles (getDefaultForm\<lparr>salary := Some 68105660.25\<rparr>)"

section \<open>The bracket search\<close>

lemma find_inBracket:
  "find (inBracket ci) BRACKETS =
     (if ci \<le> 0 then None
      else if ci \<le> 5000 then Some \<lparr>lowerBound = 0, upTo = Some 5000, rate = 0.0, baseTax = 0\<rparr>
      else if ci \<le> 20000 then Some \<lparr>lowerBound = 5000, upTo = Some 20000, rate = 0.01, baseTax = 0\<rparr>
      else if ci \<le> 35000 then Some \<lparr>lowerBound = 20000, upTo = Some 35000, rate = 0.03, baseTax = 150\<rparr>
      else if ci \<le> 50000 then Some \<lparr>lowerBound = 35000, upTo = Some 50000, rate = 0.06, baseTax = 600\<rparr>
      else if ci \<le> 70000 then Some \<lparr>lowerBound = 50000, upTo = Some 70000, rate = 0.11, baseTax = 1500\<rparr>
      else if ci \<le> 100000 then Some \<lparr>lowerBound = 70000, upTo = Some 100000, rate = 0.19, baseTax = 3700\<rparr>
      else if ci \<le> 400000 then Some \<lparr>lowerBound = 100000, upTo = Some 400000, rate = 0.25, baseTax = 9400\<rparr>
      else if ci \<le> 600000 then Some \<lparr>lowerBound = 400000, upTo = Some 600000, rate = 0.26, baseTax = 84400\<rparr>
      else if ci \<le> 2000000 then Some \<lparr>lowerBound = 600000, upTo = Some 2000000, rate = 0.28, baseTax = 136400\<rparr>
      else Some \<lparr>lowerBound = 2000000, upTo = None, rate = 0.3, baseTax = 528400\<rparr>)"
  by (simp add: BRACKETS_def inBracket_def)

lemma rebateOf_nonneg: "0 \<le> rebateOf opts"
  by (simp add: rebateOf_def)

lemma computeAnnualTax_bracketTax:
  "computeAnnualTax x opts =
     (if max 0 x \<le> 35000 then max 0 (bracketTax (max 0 x) - rebateOf opts)
      else bracketTax (max 0 x))"
proof -
  define ci where "ci = max 0 x"
  have nn: "0 \<le> ci" by (simp add: ci_def)
  have "computeAnnualTax x opts =
     (if ci \<le> 35000 then max 0 (bracketTax ci - rebateOf opts) else bracketTax ci)"
    unfolding computeAnnualTax_def ci_def[symmetric] Let_def find_inBracket
    using nn by (simp add: bracketTax_def rebateOf_def)
  then show ?thesis by (simp add: ci_def)
qed

lemma computeAnnualTax_bracketFormula:
  "35000 < ci \<Longrightarrow> find (inBracket ci) BRACKETS = Some b \<Longrightarrow>
     computeAnnualTax ci opts = bracketFormula b ci"
  by (simp add: computeAnnualTax_def bracketFormula_def Let_def max_def)

lemma marginal_mono: "0 \<le> r \<Longrightarrow> a \<le> b \<Longrightarrow> marginal l u r a \<le> marginal l u r b"
  unfolding marginal_def by (intro mult_left_mono) auto

lemma bracketTax_marginal:
  "bracketTax ci =
     marginal 5000 20000 0.01 ci + marginal 20000 35000 0.03 ci + marginal 35000 50000 0.06 ci
     + marginal 50000 70000 0.11 ci + marginal 70000 100000 0.19 ci
     + marginal 100000 400000 0.25 ci + marginal 400000 600000 0.26 ci
     + marginal 600000 2000000 0.28 ci + 0.3 * max 0 (ci - 2000000)"
  unfolding bracketTax_def marginal_def by (simp add: max_def min_def)

lemma bracketTax_mono: "a \<le> b \<Longrightarrow> bracketTax a \<le> bracketTax b"
  unfolding bracketTax_marginal
  by (intro add_mono marginal_mono mult_left_mono) auto

lemma bracketTax_low: "ci \<le> 35000 \<Longrightarrow> bracketTax ci \<le> 600"
  unfolding bracketTax_def by (simp split: if_splits)

lemma bracketTax_high: "35000 < ci \<Longrightarrow> 600 \<le> bracketTax ci"
  unfolding bracketTax_def by (simp split: if_splits)

section \<open>Tax at the bracket boundaries\<close>

text \<open>
  C6. With default options the tax at 20000 is \<open>max 0 (150 - 400) = 0\<close>, at 35000 it is
  \<open>max 0 ((150 + 15000 * 0.03) - 400) = 200\<close>, and at 100000 it is exactly 9400 (no rebate
  above 35000, whatever the options).
\<close>

theorem computeAnnualTax_boundaries:
  "computeAnnualTax 20000 None = max 0 (150 - 400) \<and>
   computeAnnualTax 20000 None = 0 \<and>
   computeAnnualTax 35000 None = max 0 ((150 + 15000 * 0.03) - 400) \<and>
   computeAnnualTax 35000 None = 200 \<and>
   computeAnnualTax 100000 None = 9400 \<and>
   computeAnnualTax 100000 opts = 9400 + 0 * 0.25"
  by (simp add: computeAnnualTax_bracketTax bracketTax_def rebateOf_def)

text \<open>
  C2, as amended. The tax at 5000 is 0. At 5000.01 the bracket tax is
  \<open>(5000.01 - 5000) * 0.01\<close>, a positive amount; with default options the self rebate of 400
  absorbs it and the result is 0, and with the self rebate switched off the result is that
  positive amount.
\<close>

theorem computeAnnualTax_5000:
  "computeAnnualTax 5000 None = 0 \<and>
   computeAnnualTax 5000.01 None = 0 \<and>
   computeAnnualTax 5000.01 (Some \<lparr>applySelfRebate = Some False, spouseRebate = None\<rparr>)
     = (5000.01 - 5000) * 0.01 \<and>
   computeAnnualTax 5000.01 (Some \<lparr>applySelfRebate = Some False, spouseRebate = None\<rparr>) > 0"
  by (simp add: computeAnnualTax_bracketTax bracketTax_def rebateOf_def)

text \<open>The claim as first stated, a positive tax at 5000.01 under default options, fails.\<close>

theorem computeAnnualTax_5000_counterexample:
  "\<not> (computeAnnualTax 5000.01 None > 0 \<and> computeAnnualTax 5000.01 None = (5000.01 - 5000) * 0.01)"
  by (simp add: computeAnnualTax_bracketTax bracketTax_def rebateOf_def)

section \<open>Monotonicity\<close>

text \<open>
  C4. For fixed options the tax is non-decreasing in the chargeable income: across every
  bracket boundary, and across the rebate cutoff at 35000, where the tax jumps upwards.
\<close>

theorem computeAnnualTax_mono:
  "ci1 \<le> ci2 \<Longrightarrow> computeAnnualTax ci1 opts \<le> computeAnnualTax ci2 opts"
proof -
  assume le: "ci1 \<le> ci2"
  define a where "a = max 0 ci1"
  define b where "b = max 0 ci2"
  have ab: "a \<le> b" using le by (simp add: a_def b_def)
  have m: "bracketTax a \<le> bracketTax b" using ab by (rule bracketTax_mono)
  have r: "0 \<le> rebateOf opts" by (rule rebateOf_nonneg)
  show ?thesis
  proof (cases "b \<le> 35000")
    case True
    then have "a \<le> 35000" using ab by simp
    then show ?thesis using True m
      by (simp add: computeAnnualTax_bracketTax a_def[symmetric] b_def[symmetric])
  next
    case False
    show ?thesis
    proof (cases "a \<le> 35000")
      case True
      have "bracketTax a \<le> 600" using True by (rule bracketTax_low)
      moreover have "600 \<le> bracketTax b" using False by (simp add: bracketTax_high)
      ultimately show ?thesis using True False r
        by (simp add: computeAnnualTax_bracketTax a_def[symmetric] b_def[symmetric])
    next
      case F2: False
      then show ?thesis using False m
        by (simp add: computeAnnualTax_bracketTax a_def[symmetric] b_def[symmetric])
    qed
  qed
qed

theorem computeAnnualTax_mono_witness:
  "(35000::real) \<le> 35000.01 \<and> computeAnnualTax 35000 None = 200
   \<and> computeAnnualTax 35000.01 None = 600.0006
   \<and> computeAnnualTax 35000 None \<le> computeAnnualTax 35000.01 None"
  using computeAnnualTax_mono [of 35000 "35000.01" None]
  by (simp add: computeAnnualTax_bracketTax bracketTax_def rebateOf_def)

section \<open>The bracket table\<close>

text \<open>
  C7. The table starts at 0, each bracket ends where the next begins, the last one is
  unbounded, the rates and base taxes are the ten listed ones, every base tax is the formula
  of the bracket before taken at its upper bound, and every positive income lies in exactly
  one bracket (0 itself lies in none under the search predicate, which excludes lower
  bounds).
\<close>

theorem BRACKETS_partition:
  "contiguousFrom 0 BRACKETS \<and> baseTaxChain 0 BRACKETS \<and>
   map rate BRACKETS = [0, 0.01, 0.03, 0.06, 0.11, 0.19, 0.25, 0.26, 0.28, 0.30] \<and>
   map baseTax BRACKETS = [0, 0, 150, 600, 1500, 3700, 9400, 84400, 136400, 528400] \<and>
   map lowerBound BRACKETS
     = [0, 5000, 20000, 35000, 50000, 70000, 100000, 400000, 600000, 2000000] \<and>
   map upTo BRACKETS
     = [Some 5000, Some 20000, Some 35000, Some 50000, Some 70000, Some 100000, Some 400000,
        Some 600000, Some 2000000, None] \<and>
   length (filter (inBracket x) BRACKETS) = (if 0 < x then 1 else 0)"
proof -
  have 1: "contiguousFrom 0 BRACKETS" by (simp add: BRACKETS_def)
  have 2: "baseTaxChain 0 BRACKETS" by (simp add: BRACKETS_def bracketFormula_def)
  have 3: "map rate BRACKETS = [0, 0.01, 0.03, 0.06, 0.11, 0.19, 0.25, 0.26, 0.28, 0.30]"
    by (simp add: BRACKETS_def)
  have 4: "map baseTax BRACKETS = [0, 0, 150, 600, 1500, 3700, 9400, 84400, 136400, 528400]"
    by (simp add: BRACKETS_def)
  have 5: "map lowerBound BRACKETS
     = [0, 5000, 20000, 35000, 50000, 70000, 100000, 400000, 600000, 2000000]"
    by (simp add: BRACKETS_def)
  have 6: "map upTo BRACKETS
     = [Some 5000, Some 20000, Some 35000, Some 50000, Some 70000, Some 100000, Some 400000,
        Some 600000, Some 2000000, None]"
    by (simp add: BRACKETS_def)
  have 7: "length (filter (inBracket x) BRACKETS) = (if 0 < x then 1 else 0)"
    by (simp add: BRACKETS_def inBracket_def)
  from 1 2 3 4 5 6 7 show ?thesis by blast
qed

text \<open>
  C10. Whenever the early return for \<open>ci \<le> 5000\<close> is not taken, the search finds a bracket
  of the table that contains \<open>ci\<close>; the fallback \<open>None \<Rightarrow> 0\<close> of \<^const>\<open>computeAnnualTax\<close> is
  never reached.
\<close>

theorem bracket_always_found:
  "5000 < max 0 chargeableIncome \<Longrightarrow>
     \<exists>b. find (inBracket (max 0 chargeableIncome)) BRACKETS = Some b
         \<and> b \<in> set BRACKETS \<and> inBracket (max 0 chargeableIncome) b"
proof -
  define ci where "ci = max 0 chargeableIncome"
  assume "5000 < max 0 chargeableIncome"
  then have "5000 < ci" by (simp add: ci_def)
  then have "find (inBracket ci) BRACKETS \<noteq> None"
    unfolding find_inBracket by simp
  then have "find (inBracket (max 0 chargeableIncome)) BRACKETS \<noteq> None"
    by (simp add: ci_def)
  then obtain b where b: "find (inBracket (max 0 chargeableIncome)) BRACKETS = Some b"
    by blast
  then have "b \<in> set BRACKETS \<and> inBracket (max 0 chargeableIncome) b"
    by (auto simp: find_Some_iff)
  with b show ?thesis by blast
qed

theorem bracket_always_found_witness:
  "(5000::real) < max 0 5000.01 \<and>
   (\<exists>b. find (inBracket (max 0 5000.01)) BRACKETS = Some b
         \<and> b \<in> set BRACKETS \<and> inBracket (max 0 5000.01) b)"
  using bracket_always_found [of "5000.01"] by simp

section \<open>Chargeable income\<close>

text \<open>
  C8. The chargeable income is \<open>max 0 (annualGross - totalReliefs)\<close> with
  \<open>annualGross = max 0 monthlyGross * 12\<close> and \<open>totalReliefs = max 0 annualReliefs\<close> plus the
  annualised EPF capped at 7000 when EPF is supplied, plus the annualised SOCSO and EIS
  together capped at 350 when either is supplied. A gross of 5000 a month with an EPF of 550
  a month and no other relief gives \<open>60000 - 6600 = 53400\<close>.
\<close>

theorem buildAnnualChargeableIncome_spec:
  "buildAnnualChargeableIncome monthlyGross annualReliefs opts
     = spec_chargeableIncome monthlyGross annualReliefs
         (Option.bind opts epfMonthly) (Option.bind opts socsoMonthly) (Option.bind opts eisMonthly)
   \<and> buildAnnualChargeableIncome 5000 0
         (Some \<lparr>epfMonthly = Some 550, socsoMonthly = None, eisMonthly = None\<rparr>) = 60000 - 6600
   \<and> buildAnnualChargeableIncome 5000 0
         (Some \<lparr>epfMonthly = Some 550, socsoMonthly = None, eisMonthly = None\<rparr>) = 53400"
  by (simp add: buildAnnualChargeableIncome_def spec_chargeableIncome_def spec_annualized_def
      Let_def split: option.splits)

theorem buildAnnualChargeableIncome_spec_witness:
  "buildAnnualChargeableIncome 5000 1000
      (Some \<lparr>epfMonthly = Some 700, socsoMonthly = Some 20, eisMonthly = None\<rparr>)
     = max 0 (max 0 5000 * 12 - (max 0 1000 + 7000 + 240))
   \<and> buildAnnualChargeableIncome 5000 1000
      (Some \<lparr>epfMonthly = Some 700, socsoMonthly = Some 20, eisMonthly = None\<rparr>) = 51760"
  using buildAnnualChargeableIncome_spec [of 5000 1000
      "Some \<lparr>epfMonthly = Some 700, socsoMonthly = Some 20, eisMonthly = None\<rparr>"]
  by (simp add: spec_chargeableIncome_def spec_annualized_def orZero_def)

section \<open>Necessities\<close>

lemma necessities_sum_fields:
  "necessities form =
     numberOrZero (house form) + numberOrZero (car form) + numberOrZero (food form)
     + numberOrZero (utilities form) + numberOrZero (otherNecessities form)"
  by (simp add: necessities_def necessityFields_def)

lemma spec_necessitiesTotal_fields:
  "spec_necessitiesTotal form =
     max 0 (numberOrZero (house form)) + max 0 (numberOrZero (car form))
     + max 0 (numberOrZero (food form)) + max 0 (numberOrZero (utilities form))
     + max 0 (numberOrZero (otherNecessities form))"
  by (simp add: spec_necessitiesTotal_def necessityFields_def)

text \<open>
  C1, as amended. The necessities total is the sum of the five fields, each coerced to 0 when
  non-numeric and otherwise taken as it is: no field is floored, so a negative entry
  contributes its negative amount. The total never exceeds the individually floored sum
  and equals it when no entry is negative.
\<close>

theorem necessities_unfloored:
  "necessities form =
     numberOrZero (house form) + numberOrZero (car form) + numberOrZero (food form)
     + numberOrZero (utilities form) + numberOrZero (otherNecessities form) \<and>
   numberOrZero None = 0 \<and> numberOrZero (Some x) = x \<and>
   necessities form \<le> spec_necessitiesTotal form \<and>
   (list_all (\<lambda>b. 0 \<le> numberOrZero b) (necessityFields form)
      \<longrightarrow> necessities form = spec_necessitiesTotal form)"
proof -
  have 1: "numberOrZero None = 0 \<and> numberOrZero (Some x) = x"
    by (simp add: numberOrZero_def)
  have 2: "necessities form \<le> spec_necessitiesTotal form"
    unfolding necessities_sum_fields spec_necessitiesTotal_fields
    by (intro add_mono) simp_all
  have 3: "list_all (\<lambda>b. 0 \<le> numberOrZero b) (necessityFields form)
      \<longrightarrow> necessities form = spec_necessitiesTotal form"
    unfolding necessities_sum_fields spec_necessitiesTotal_fields
    by (simp add: necessityFields_def max_def)
  from 1 2 3 necessities_sum_fields show ?thesis by blast
qed

theorem necessities_unfloored_witness:
  "list_all (\<lambda>b. 0 \<le> numberOrZero b)
     (necessityFields (getDefaultForm\<lparr>house := Some 1200, car := None, food := Some 600.5\<rparr>)) \<and>
   necessities (getDefaultForm\<lparr>house := Some 1200, car := None, food := Some 600.5\<rparr>) = 1800.5 \<and>
   spec_necessitiesTotal (getDefaultForm\<lparr>house := Some 1200, car := None, food := Some 600.5\<rparr>)
     = 1800.5"
  using necessities_unfloored
    [of "getDefaultForm\<lparr>house := Some 1200, car := None, food := Some 600.5\<rparr>" 0]
  by (simp add: necessityFields_def getDefaultForm_def numberOrZero_def)

text \<open>The claim as first stated fails for a negative housing entry.\<close>

theorem necessities_floor_counterexample:
  "necessities (getDefaultForm\<lparr>house := Some (- 100)\<rparr>) = - 100 \<and>
   spec_necessitiesTotal (getDefaultForm\<lparr>house := Some (- 100)\<rparr>) = 0 \<and>
   necessities (getDefaultForm\<lparr>house := Some (- 100)\<rparr>)
     \<noteq> spec_necessitiesTotal (getDefaultForm\<lparr>house := Some (- 100)\<rparr>)"
  by (simp add: necessities_sum_fields spec_necessitiesTotal_fields getDefaultForm_def
      numberOrZero_def)

section \<open>Formula selection\<close>

lemma sorted_formulas:
  "sort_key needs DEFAULT_FORMULAS =
     [\<lparr>name = ''50 / 30 / 20'', needs = 50, wants = 30, savings = 20\<rparr>,
      \<lparr>name = ''60 / 20 / 20'', needs = 60, wants = 20, savings = 20\<rparr>,
      \<lparr>name = ''70 / 20 / 10'', needs = 70, wants = 20, savings = 10\<rparr>]"
  by (simp add: DEFAULT_FORMULAS_def)

lemma find_fit:
  "find (\<lambda>f. needs f \<ge> pct) (sort_key needs DEFAULT_FORMULAS) =
     (if pct \<le> 50 then Some \<lparr>name = ''50 / 30 / 20'', needs = 50, wants = 30, savings = 20\<rparr>
      else if pct \<le> 60 then Some \<lparr>name = ''60 / 20 / 20'', needs = 60, wants = 20, savings = 20\<rparr>
      else if pct \<le> 70 then Some \<lparr>name = ''70 / 20 / 10'', needs = 70, wants = 20, savings = 10\<rparr>
      else None)"
  unfolding sorted_formulas by simp

lemma no_fit_iff:
  "find (\<lambda>f. needs f \<ge> pct) (sort_key needs DEFAULT_FORMULAS) = None \<longleftrightarrow> 70 < pct"
  unfolding find_fit by simp

lemma exceeds_presets_iff:
  "(\<forall>f \<in> set DEFAULT_FORMULAS. needs f < pct) \<longleftrightarrow> 70 < pct"
  by (auto simp: DEFAULT_FORMULAS_def)

lemma selectFormula_custom:
  assumes "70 < pct"
  shows "needs (selectFormula pct) = of_int (min 100 (ceiling pct))"
    and "wants (selectFormula pct) = of_int (max 0 (90 - min 100 (ceiling pct)))"
    and "savings (selectFormula pct) = of_int (min 10 (100 - min 100 (ceiling pct)))"
proof -
  have c: "70 < ceiling pct" using assms by (simp add: less_ceiling_iff)
  have nf: "find (\<lambda>f. needs f \<ge> pct) (sort_key needs DEFAULT_FORMULAS) = None"
    using assms by (simp add: no_fit_iff)
  show "needs (selectFormula pct) = of_int (min 100 (ceiling pct))"
    unfolding selectFormula_def nf by (simp add: Let_def)
  show "wants (selectFormula pct) = of_int (max 0 (90 - min 100 (ceiling pct)))"
    unfolding selectFormula_def nf using c by (simp add: Let_def min_def max_def)
  show "savings (selectFormula pct) = of_int (min 10 (100 - min 100 (ceiling pct)))"
    unfolding selectFormula_def nf using c by (simp add: Let_def min_def max_def)
qed

lemma selectFormula_sum: "needs (selectFormula pct) + wants (selectFormula pct) + savings (selectFormula pct) = 100"
proof (cases "70 < pct")
  case True
  define n where "n = min 100 (ceiling pct)"
  have "(of_int n :: real) + of_int (max 0 (90 - n)) + of_int (min 10 (100 - n)) = of_int (n + max 0 (90 - n) + min 10 (100 - n))"
    by simp
  also have "n + max 0 (90 - n) + min 10 (100 - n) = 100" by (simp add: n_def min_def max_def)
  finally show ?thesis using selectFormula_custom[OF True] by (simp add: n_def)
next
  case False
  then show ?thesis by (simp add: selectFormula_def find_fit)
qed

lemma selectFormula_range:
  "0 \<le> needs (selectFormula pct) \<and> needs (selectFormula pct) \<le> 100 \<and>
   0 \<le> wants (selectFormula pct) \<and> wants (selectFormula pct) \<le> 100 \<and>
   0 \<le> savings (selectFormula pct) \<and> savings (selectFormula pct) \<le> 100"
proof (cases "70 < pct")
  case True
  have c: "70 < ceiling pct" using True by (simp add: less_ceiling_iff)
  define n where "n = min 100 (ceiling pct)"
  have n: "70 < n" "n \<le> 100" using c by (simp_all add: n_def)
  have "0 \<le> n \<and> n \<le> 100 \<and> 0 \<le> max 0 (90 - n) \<and> max 0 (90 - n) \<le> 100 \<and> 0 \<le> min 10 (100 - n) \<and> min 10 (100 - n) \<le> 100"
    using n by simp
  then have "(0::real) \<le> of_int n \<and> of_int n \<le> (100::real) \<and> (0::real) \<le> of_int (max 0 (90 - n)) \<and> of_int (max 0 (90 - n)) \<le> (100::real)
     \<and> (0::real) \<le> of_int (min 10 (100 - n)) \<and> of_int (min 10 (100 - n)) \<le> (100::real)"
    by (simp only: of_int_0_le_iff of_int_le_numeral_iff)
  then show ?thesis using selectFormula_custom[OF True] by (simp add: n_def)
next
  case False
  then show ?thesis by (simp add: selectFormula_def find_fit)
qed

lemma necessityPct_at:
  "necessityPct (getDefaultForm\<lparr>salary := Some 1000, epfRate := 0, socsoRate := 0, eisRate := 0,
      house := Some h\<rparr>) = h / 10"
  by (simp add: necessityPct_def net_def gross_def totalDeductions_def epf_def socso_def eis_def
      necessities_sum_fields getDefaultForm_def numberOrZero_def)

text \<open>
  C3. Whatever the form holds, the chosen formula, preset or custom, has its three
  percentages in the range 0 to 100, and they sum to exactly 100.
\<close>

theorem chosenFormula_percentages:
  "0 \<le> needs (chosenFormula form) \<and> needs (chosenFormula form) \<le> 100 \<and>
   0 \<le> wants (chosenFormula form) \<and> wants (chosenFormula form) \<le> 100 \<and>
   0 \<le> savings (chosenFormula form) \<and> savings (chosenFormula form) \<le> 100 \<and>
   needs (chosenFormula form) + wants (chosenFormula form) + savings (chosenFormula form) = 100"
  unfolding chosenFormula_def using selectFormula_range selectFormula_sum by blast

text \<open>
  C5. When the necessity percentage exceeds the needs of every preset, no preset fits and
  the chosen formula is the custom one of the specification: needs \<open>min 100 (ceil pct)\<close>,
  savings 10 above 70 needs and 20 otherwise, wants the remainder, with savings squeezed to
  \<open>max 0 (100 - needs)\<close> when the remainder is negative. A percentage of 85 gives 85 / 5 / 10
  and a percentage of 95 gives 95 / 0 / 5.
\<close>

theorem custom_formula:
  "((\<forall>f \<in> set DEFAULT_FORMULAS. needs f < necessityPct form) \<longrightarrow>
      find (\<lambda>f. needs f \<ge> necessityPct form) (sort_key needs DEFAULT_FORMULAS) = None \<and>
      (needs (chosenFormula form), wants (chosenFormula form), savings (chosenFormula form))
        = spec_customFormula (necessityPct form)) \<and>
   (necessityPct form = 85 \<longrightarrow>
      (needs (chosenFormula form), wants (chosenFormula form), savings (chosenFormula form))
        = (85, 5, 10)) \<and>
   (necessityPct form = 95 \<longrightarrow>
      (needs (chosenFormula form), wants (chosenFormula form), savings (chosenFormula form))
        = (95, 0, 5))"
proof -
  define pct where "pct = necessityPct form"
  have gen: "(needs (selectFormula pct), wants (selectFormula pct), savings (selectFormula pct))
        = spec_customFormula pct" if "70 < pct"
  proof -
    have c: "70 < ceiling pct" using that by (simp add: less_ceiling_iff)
    define n where "n = min 100 (ceiling pct)"
    have n: "70 < n" "n \<le> 100" using c by (simp_all add: n_def)
    have r: "min 100 (of_int (ceiling pct)) = (of_int n :: real)"
      by (simp add: n_def min_def)
    have rn: "70 < (of_int n :: real)" "(of_int n :: real) \<le> 100" using n by simp_all
    have "spec_customFormula pct =
       (of_int n, of_int (max 0 (90 - n)), of_int (min 10 (100 - n)))"
      unfolding spec_customFormula_def r using rn
      by (simp add: Let_def min_def max_def)
    then show ?thesis using selectFormula_custom[OF that] by (simp add: n_def)
  qed
  have 1: "(\<forall>f \<in> set DEFAULT_FORMULAS. needs f < pct) \<longrightarrow>
      find (\<lambda>f. needs f \<ge> pct) (sort_key needs DEFAULT_FORMULAS) = None \<and>
      (needs (selectFormula pct), wants (selectFormula pct), savings (selectFormula pct))
        = spec_customFormula pct"
    using gen by (simp add: exceeds_presets_iff no_fit_iff)
  have 2: "pct = 85 \<longrightarrow>
      (needs (selectFormula pct), wants (selectFormula pct), savings (selectFormula pct))
        = (85, 5, 10)"
    using selectFormula_custom[of 85] by simp
  have 3: "pct = 95 \<longrightarrow>
      (needs (selectFormula pct), wants (selectFormula pct), savings (selectFormula pct))
        = (95, 0, 5)"
    using selectFormula_custom[of 95] by simp
  from 1 2 3 show ?thesis unfolding chosenFormula_def pct_def by blast
qed

theorem custom_formula_witness:
  "necessityPct (getDefaultForm\<lparr>salary := Some 1000, epfRate := 0, socsoRate := 0, eisRate := 0,
      house := Some 850\<rparr>) = 85 \<and>
   list_all (\<lambda>f. needs f < 85) DEFAULT_FORMULAS \<and>
   needs (chosenFormula (getDefaultForm\<lparr>salary := Some 1000, epfRate := 0, socsoRate := 0,
      eisRate := 0, house := Some 850\<rparr>)) = 85 \<and>
   wants (chosenFormula (getDefaultForm\<lparr>salary := Some 1000, epfRate := 0, socsoRate := 0,
      eisRate := 0, house := Some 850\<rparr>)) = 5 \<and>
   savings (chosenFormula (getDefaultForm\<lparr>salary := Some 1000, epfRate := 0, socsoRate := 0,
      eisRate := 0, house := Some 850\<rparr>)) = 10 \<and>
   spec_customFormula 85 = (85, 5, 10) \<and>
   necessityPct (getDefaultForm\<lparr>salary := Some 1000, epfRate := 0, socsoRate := 0, eisRate := 0,
      house := Some 950\<rparr>) = 95 \<and>
   needs (chosenFormula (getDefaultForm\<lparr>salary := Some 1000, epfRate := 0, socsoRate := 0,
      eisRate := 0, house := Some 950\<rparr>)) = 95 \<and>
   wants (chosenFormula (getDefaultForm\<lparr>salary := Some 1000, epfRate := 0, socsoRate := 0,
      eisRate := 0, house := Some 950\<rparr>)) = 0 \<and>
   savings (chosenFormula (getDefaultForm\<lparr>salary := Some 1000, epfRate := 0, socsoRate := 0,
      eisRate := 0, house := Some 950\<rparr>)) = 5"
proof -
  have p: "list_all (\<lambda>f. needs f < 85) DEFAULT_FORMULAS"
    by (simp add: DEFAULT_FORMULAS_def)
  have s: "spec_customFormula 85 = (85, 5, 10)"
    by (simp add: spec_customFormula_def)
  show ?thesis
    using p s
      custom_formula [of "getDefaultForm\<lparr>salary := Some 1000, epfRate := 0, socsoRate := 0,
        eisRate := 0, house := Some 850\<rparr>"]
      custom_formula [of "getDefaultForm\<lparr>salary := Some 1000, epfRate := 0, socsoRate := 0,
        eisRate := 0, house := Some 950\<rparr>"]
    by (simp add: necessityPct_at list_all_iff)
qed

section \<open>Allocation amounts\<close>

text \<open>
  C9, as amended. Each amount is the net income times the formula's percentage over 100, and
  in exact arithmetic the three amounts sum to the net income, whatever the form holds. No
  bound of \<open>1e-9\<close> is stated for the rounded amounts: their error grows with the net income.
\<close>

theorem allocations_sum:
  "needsAmount (allocations form) = net form * needs (chosenFormula form) / 100 \<and>
   wantsAmount (allocations form) = net form * wants (chosenFormula form) / 100 \<and>
   savingsAmount (allocations form) = net form * savings (chosenFormula form) / 100 \<and>
   needsAmount (allocations form) + wantsAmount (allocations form)
     + savingsAmount (allocations form) = net form"
proof -
  define f where "f = chosenFormula form"
  have s: "needs f + wants f + savings f = 100"
    unfolding f_def chosenFormula_def by (rule selectFormula_sum)
  have "(needs f / 100) * net form + (wants f / 100) * net form + (savings f / 100) * net form
        = ((needs f + wants f + savings f) / 100) * net form"
    by (simp add: algebra_simps add_divide_distrib)
  also have "\<dots> = net form" using s by simp
  finally show ?thesis by (simp add: allocations_def Let_def f_def)
qed

section \<open>Allocation amounts in binary64\<close>

lemmas fl_eval = fl_def expo_def rne_def pow2_def bitLength.simps

lemma largeSalaryForm_fields:
  "largeSalaryForm =
     \<lparr>salary = Some 68105660.25, epfRate = 11, socsoRate = 0.5, socsoCeiling = 6000,
      eisRate = 3602879701896397 / 18014398509481984, eisCeiling = 6000, house = Some 0,
      car = Some 0, food = Some 0, utilities = Some 0, otherNecessities = Some 0\<rparr>"
  by (simp add: largeSalaryForm_def asDoubles_def getDefaultForm_def fl_eval)

lemma large_fields:
  "salary largeSalaryForm = Some 68105660.25"
  "epfRate largeSalaryForm = 11"
  "socsoRate largeSalaryForm = 0.5"
  "socsoCeiling largeSalaryForm = 6000"
  "eisRate largeSalaryForm = 3602879701896397 / 18014398509481984"
  "eisCeiling largeSalaryForm = 6000"
  "necessityFields largeSalaryForm = [Some 0, Some 0, Some 0, Some 0, Some 0]"
  by (simp_all add: largeSalaryForm_fields necessityFields_def)

lemma gross_large: "gross largeSalaryForm = 68105660.25"
  by (simp add: large_fields gross_def numberOrZero_def)

lemma min_large: "min (68105660.25 :: real) 6000 = 6000"
  by simp

lemma rate_epf: "fl (11 / 100) = 7926335344172073 / 72057594037927936"
  by (simp add: fl_eval)

lemma rate_socso: "fl (0.5 / 100) = 5764607523034235 / 1152921504606846976"
  by (simp add: fl_eval)

lemma rate_eis:
  "fl (3602879701896397 / 18014398509481984 / 100) = 1152921504606847 / 576460752303423488"
  by (simp add: fl_eval)

lemma epf64_large: "epf64 largeSalaryForm = 8044068544771523 / 1073741824"
proof -
  have "epf64 largeSalaryForm = fl (68105660.25 * fl (11 / 100))"
    by (simp only: epf64_def gross_large large_fields)
  also have "\<dots> = fl (68105660.25 * (7926335344172073 / 72057594037927936))"
    by (simp only: rate_epf)
  also have "\<dots> = 8044068544771523 / 1073741824"
    by (simp add: fl_eval)
  finally show ?thesis .
qed

lemma socso64_large: "socso64 largeSalaryForm = 30"
proof -
  have "socso64 largeSalaryForm = fl (6000 * fl (0.5 / 100))"
    by (simp only: socso64_def gross_large large_fields min_large)
  also have "\<dots> = fl (6000 * (5764607523034235 / 1152921504606846976))"
    by (simp only: rate_socso)
  also have "\<dots> = 30"
    by (simp add: fl_eval)
  finally show ?thesis .
qed

lemma eis64_large: "eis64 largeSalaryForm = 12"
proof -
  have "eis64 largeSalaryForm = fl (6000 * fl (3602879701896397 / 18014398509481984 / 100))"
    by (simp only: eis64_def gross_large large_fields min_large)
  also have "\<dots> = fl (6000 * (1152921504606847 / 576460752303423488))"
    by (simp only: rate_eis)
  also have "\<dots> = 12"
    by (simp add: fl_eval)
  finally show ?thesis .
qed

lemma totalDeductions64_large:
  "totalDeductions64 largeSalaryForm = 8044113641928131 / 1073741824"
proof -
  have "totalDeductions64 largeSalaryForm = fl (fl (8044068544771523 / 1073741824 + 30) + 12)"
    by (simp only: totalDeductions64_def epf64_large socso64_large eis64_large)
  also have "fl (8044068544771523 / 1073741824 + 30) = 8044100757026243 / 1073741824"
    by (simp add: fl_eval)
  also have "fl (8044100757026243 / 1073741824 + 12) = 8044113641928131 / 1073741824"
    by (simp add: fl_eval)
  finally show ?thesis .
qed

lemma net64_large: "net64 largeSalaryForm = 1016934097181737 / 16777216"
proof -
  have "net64 largeSalaryForm = max 0 (fl (68105660.25 - 8044113641928131 / 1073741824))"
    by (simp only: net64_def gross_large totalDeductions64_large)
  also have "fl (68105660.25 - 8044113641928131 / 1073741824) = 1016934097181737 / 16777216"
    by (simp add: fl_eval)
  also have "max 0 (1016934097181737 / 16777216 :: real) = 1016934097181737 / 16777216"
    by simp
  finally show ?thesis .
qed

lemma necessities64_large: "necessities64 largeSalaryForm = 0"
  by (simp add: necessities64_def large_fields numberOrZero_def fl_def)

lemma necessityPct64_large: "necessityPct64 largeSalaryForm = 0"
  by (simp add: necessityPct64_def necessities64_large fl_def)

lemma chosenFormula64_large:
  "chosenFormula64 largeSalaryForm =
     \<lparr>name = ''50 / 30 / 20'', needs = 50, wants = 30, savings = 20\<rparr>"
  by (simp add: chosenFormula64_def necessityPct64_large selectFormula_def find_fit)

lemma pct_50: "fl (50 / 100) = 1 / 2"
  by (simp add: fl_eval)

lemma pct_30: "fl (30 / 100) = 5404319552844595 / 18014398509481984"
  by (simp add: fl_eval)

lemma pct_20: "fl (20 / 100) = 3602879701896397 / 18014398509481984"
  by (simp add: fl_eval)

lemma needsAmount64_large:
  "needsAmount (allocations64 largeSalaryForm) = 1016934097181737 / 33554432"
proof -
  have "needsAmount (allocations64 largeSalaryForm)
          = fl (fl (50 / 100) * (1016934097181737 / 16777216))"
    by (simp only: allocations64_def Let_def chosenFormula64_large net64_large
        Allocations.simps Formula.simps)
  also have "\<dots> = fl (1 / 2 * (1016934097181737 / 16777216))"
    by (simp only: pct_50)
  also have "\<dots> = 1016934097181737 / 33554432"
    by (simp add: fl_eval)
  finally show ?thesis .
qed

lemma wantsAmount64_large:
  "wantsAmount (allocations64 largeSalaryForm) = 4881283666472337 / 268435456"
proof -
  have "wantsAmount (allocations64 largeSalaryForm)
          = fl (fl (30 / 100) * (1016934097181737 / 16777216))"
    by (simp only: allocations64_def Let_def chosenFormula64_large net64_large
        Allocations.simps Formula.simps)
  also have "\<dots> = fl (5404319552844595 / 18014398509481984 * (1016934097181737 / 16777216))"
    by (simp only: pct_30)
  also have "\<dots> = 4881283666472337 / 268435456"
    by (simp add: fl_eval)
  finally show ?thesis .
qed

lemma savingsAmount64_large:
  "savingsAmount (allocations64 largeSalaryForm) = 6508378221963117 / 536870912"
proof -
  have "savingsAmount (allocations64 largeSalaryForm)
          = fl (fl (20 / 100) * (1016934097181737 / 16777216))"
    by (simp only: allocations64_def Let_def chosenFormula64_large net64_large
        Allocations.simps Formula.simps)
  also have "\<dots> = fl (3602879701896397 / 18014398509481984 * (1016934097181737 / 16777216))"
    by (simp only: pct_20)
  also have "\<dots> = 6508378221963117 / 536870912"
    by (simp add: fl_eval)
  finally show ?thesis .
qed

text \<open>
  The claim as first stated also bounds the rounded sum for every input. For the default form
  with a gross salary of 68105660.25 the net income is a little over 60.6 million; the exact
  sum of the three rounded amounts misses it by \<open>2 ^ - 29\<close>, about \<open>1.86e-9\<close>, and the sum
  and difference taken in binary64 miss it by \<open>2 ^ - 27\<close>, about \<open>7.45e-9\<close>. Both exceed
  \<open>1e-9\<close>.
\<close>

theorem allocations64_tolerance_counterexample:
  "net64 largeSalaryForm = 1016934097181737 / 16777216 \<and>
   needsAmount (allocations64 largeSalaryForm) + wantsAmount (allocations64 largeSalaryForm)
     + savingsAmount (allocations64 largeSalaryForm) - net64 largeSalaryForm = - (1 / 2 ^ 29) \<and>
   \<not> \<bar>needsAmount (allocations64 largeSalaryForm) + wantsAmount (allocations64 largeSalaryForm)
        + savingsAmount (allocations64 largeSalaryForm) - net64 largeSalaryForm\<bar> \<le> 1 / 10 ^ 9 \<and>
   fl (fl (fl (needsAmount (allocations64 largeSalaryForm)
               + wantsAmount (allocations64 largeSalaryForm))
           + savingsAmount (allocations64 largeSalaryForm))
       - net64 largeSalaryForm) = - (1 / 2 ^ 27) \<and>
   \<not> \<bar>fl (fl (fl (needsAmount (allocations64 largeSalaryForm)
                    + wantsAmount (allocations64 largeSalaryForm))
                + savingsAmount (allocations64 largeSalaryForm))
            - net64 largeSalaryForm)\<bar> \<le> 1 / 10 ^ 9"
proof -
  have 1: "fl (1016934097181737 / 33554432 + 4881283666472337 / 268435456)
             = 1627094555490779 / 33554432"
    by (simp add: fl_eval)
  have 2: "fl (1627094555490779 / 33554432 + 6508378221963117 / 536870912)
             = 8135472777453895 / 134217728"
    by (simp add: fl_eval)
  have 3: "fl (8135472777453895 / 134217728 - 1016934097181737 / 16777216) = - (1 / 134217728)"
    by (simp add: fl_eval)
  show ?thesis
    unfolding needsAmount64_large wantsAmount64_large savingsAmount64_large net64_large 1 2 3
    by simp
qed

end
